theory Spec2Isabelle
  imports Main
begin

section \<open>LUFA/Common/CompilerSpecific.h as a function of the build environment\<close>

text \<open>
  The file is a preprocessor program: it reads which macros are defined when it is
  included and the values \<open>ARCH\<close>, \<open>ARCH_AVR\<close>, \<open>ARCH_XMEGA\<close> and \<open>ARCH_UC3\<close> have
  inside \<open>#if\<close>, and it either stops at \<open>#error\<close> or leaves a sequence of \<open>#define\<close> and
  \<open>#include\<close> directives behind. The model is that function. A conditional group of the
  file is an \<open>if\<close> of the model, \<open>defined(X)\<close> is membership in the set of predefined
  names, and a replacement list is the list of its preprocessing tokens as written.
\<close>

subsection \<open>Build environment\<close>

text \<open>
  The four \<open>ARCH\<close> identifiers are defined by other headers of the library and by the
  build flags, none of them in this file. They enter as the integer each one has in a
  \<open>#if\<close> expression (an identifier that is not a macro counts as 0 there).
\<close>

record build_env =
  predefined :: "string set"
  ARCH :: int
  ARCH_AVR :: int
  ARCH_XMEGA :: int
  ARCH_UC3 :: int

definition pp_defined :: "build_env \<Rightarrow> string \<Rightarrow> bool" where
  "pp_defined env n = (n \<in> predefined env)"

subsection \<open>Macros, directives and errors\<close>

text \<open>
  \<open>params = None\<close> is an object-like macro. \<open>variadic\<close> says that the parameter list
  ends in \<open>...\<close>. \<open>body\<close> is the replacement list, token by token; \<open>##\<close> and \<open>#\<close> are
  tokens of it.
\<close>

record macro =
  params :: "string list option"
  variadic :: bool
  body :: "string list"

definition obj_macro :: "string list \<Rightarrow> macro" where
  "obj_macro b = \<lparr>params = None, variadic = False, body = b\<rparr>"

definition fn_macro :: "string list \<Rightarrow> string list \<Rightarrow> macro" where
  "fn_macro ps b = \<lparr>params = Some ps, variadic = False, body = b\<rparr>"

definition va_macro :: "string list \<Rightarrow> string list \<Rightarrow> macro" where
  "va_macro ps b = \<lparr>params = Some ps, variadic = True, body = b\<rparr>"

datatype directive = Define string macro | Include string

datatype pp_error =
    Hash_error string
  | Undefined_macro string
  | Not_function_like string
  | Wrong_argument_count string nat nat

subsection \<open>The conditions of the file\<close>

text \<open>Line 54, \<open>#ifndef __LUFA_COMPILERSPEC_H__\<close>: the include guard is not yet set.\<close>

definition first_inclusion :: "build_env \<Rightarrow> bool" where
  "first_inclusion env = (\<not> pp_defined env ''__LUFA_COMPILERSPEC_H__'')"

text \<open>Line 58: the umbrella header has defined \<open>__INCLUDE_FROM_COMMON_H\<close>.\<close>

definition included_via_umbrella :: "build_env \<Rightarrow> bool" where
  "included_via_umbrella env = pp_defined env ''__INCLUDE_FROM_COMMON_H''"

text \<open>Line 64, \<open>#if defined(__GNUC__) || defined(__DOXYGEN__)\<close>.\<close>

definition gcc_family :: "build_env \<Rightarrow> bool" where
  "gcc_family env = (pp_defined env ''__GNUC__'' \<or> pp_defined env ''__DOXYGEN__'')"

text \<open>Line 117, \<open>#if defined(__ICCAVR32__) || defined(__DOXYGEN__)\<close>.\<close>

definition iar_family :: "build_env \<Rightarrow> bool" where
  "iar_family env = (pp_defined env ''__ICCAVR32__'' \<or> pp_defined env ''__DOXYGEN__'')"

text \<open>Lines 89 and 122, \<open>#if ((ARCH == ARCH_AVR) || (ARCH == ARCH_XMEGA))\<close>.\<close>

definition arch_avr_or_xmega :: "build_env \<Rightarrow> bool" where
  "arch_avr_or_xmega env = (ARCH env = ARCH_AVR env \<or> ARCH env = ARCH_XMEGA env)"

text \<open>Lines 91 and 124, \<open>#elif (ARCH == ARCH_UC3)\<close>.\<close>

definition arch_uc3 :: "build_env \<Rightarrow> bool" where
  "arch_uc3 env = (ARCH env = ARCH_UC3 env)"

subsection \<open>The GCC group, lines 64 to 115\<close>

definition gcc_group :: "build_env \<Rightarrow> directive list" where
  \<open>gcc_group env =
    (if gcc_family env then
       [Define ''GCC_FORCE_POINTER_ACCESS'' (fn_macro [''StructPtr'']
          [''__asm__'', ''__volatile__'', ''('', ''""'', '':'', ''"=b"'', ''('', ''StructPtr'', '')'',
           '':'', ''"0"'', ''('', ''StructPtr'', '')'', '')'']),
        Define ''GCC_MEMORY_BARRIER'' (fn_macro []
          [''__asm__'', ''__volatile__'', ''('', ''""'', '':'', '':'', '':'', ''"memory"'', '')'', '';'']),
        Define ''GCC_IS_COMPILE_CONST'' (fn_macro [''x'']
          [''__builtin_constant_p'', ''('', ''x'', '')''])]
       @ (if arch_avr_or_xmega env then
            [Define ''GCC_IS_PART_DEFINED'' (fn_macro [''x'']
               [''defined'', ''('', ''__AVR_'', ''##'', ''x'', ''##'', ''__'', '')''])]
          else if arch_uc3 env then
            [Define ''GCC_IS_PART_DEFINED'' (fn_macro [''x'']
               [''defined'', ''('', ''__AVR32_'', ''##'', ''x'', ''##'', ''__'', '')''])]
          else [])
       @ [Define ''GCC_ISR'' (va_macro [''Name'']
            [''void'', ''Name'', ''('', ''void'', '')'', ''__attribute__'', ''('', ''('',
             ''__interrupt__'', '')'', '')'', ''__VA_ARGS__'', '';'',
             ''void'', ''Name'', ''('', ''void'', '')'']),
          Define ''GCC_READ_SYS_REGISTER'' (fn_macro [''Reg'']
            [''__builtin_mfsr'', ''('', ''Reg'', '')'']),
          Define ''GCC_WRITE_SYS_REGISTER'' (fn_macro [''Reg'', ''Val'']
            [''__builtin_mtsr'', ''('', ''Reg'', '','', ''Val'', '')'']),
          Define ''GCC_CLEAR_STATUS_FLAG'' (fn_macro [''Bitmask'']
            [''__builtin_csrf'', ''('', ''Bitmask'', '')'']),
          Define ''GCC_SET_STATUS_FLAG'' (fn_macro [''Bitmask'']
            [''__builtin_ssrf'', ''('', ''Bitmask'', '')''])]
       @ (if \<not> pp_defined env ''__DOXYGEN__'' then
            [Define ''__COMPILER_SPECIFIC'' (fn_macro [''x''] [''GCC_'', ''##'', ''x''])]
          else [])
     else
       [Define ''GCC_FORCE_POINTER_ACCESS'' (fn_macro [''StructPtr''] []),
        Define ''GCC_MEMORY_BARRIER'' (fn_macro [] []),
        Define ''GCC_IS_COMPILE_CONST'' (fn_macro [''x''] [''0'']),
        Define ''GCC_IS_PART_DEFINED'' (fn_macro [''x''] [''0'']),
        Define ''GCC_ISR'' (va_macro [''Name''] []),
        Define ''GCC_READ_SYS_REGISTER'' (fn_macro [''Reg''] []),
        Define ''GCC_WRITE_SYS_REGISTER'' (fn_macro [''Reg'', ''Val''] []),
        Define ''GCC_CLEAR_STATUS_FLAG'' (fn_macro [''Bitmask''] []),
        Define ''GCC_SET_STATUS_FLAG'' (fn_macro [''Bitmask''] [])])\<close>

subsection \<open>The IAR group, lines 117 to 149\<close>

definition iar_group :: "build_env \<Rightarrow> directive list" where
  \<open>iar_group env =
    (if iar_family env then
       [Include ''intrinsics.h'',
        Define ''IAR_MEMORY_BARRIER'' (fn_macro [] [''__asm'', ''('', ''""'', '')''])]
       @ (if arch_avr_or_xmega env then
            [Define ''IAR_IS_PART_DEFINED'' (fn_macro [''x'']
               [''defined'', ''('', ''__AT'', ''##'', ''x'', ''##'', ''__'', '')''])]
          else if arch_uc3 env then
            [Define ''IAR_IS_PART_DEFINED'' (fn_macro [''x'']
               [''defined'', ''('', ''__AT32'', ''##'', ''x'', ''##'', ''__'', '')''])]
          else [])
       @ (if \<not> pp_defined env ''__DOXYGEN__'' then
            [Define ''__IAR_ISR_PRAGMA'' (va_macro []
               [''_Pragma'', ''('', ''#'', ''__VA_ARGS__'', '')''])]
          else [])
       @ [Define ''IAR_ISR'' (fn_macro [''Name'', ''Group'', ''Level'']
            [''__IAR_ISR_PRAGMA'', ''('', ''handler'', ''='', ''Group'', '','', ''Level'', '')'',
             ''__interrupt'', ''void'', ''Name'', ''('', ''void'', '')'']),
          Define ''IAR_READ_SYS_REGISTER'' (fn_macro [''Reg'']
            [''__get_system_register'', ''('', ''Reg'', '')'']),
          Define ''IAR_WRITE_SYS_REGISTER'' (fn_macro [''Reg'', ''Val'']
            [''__set_system_register'', ''('', ''Reg'', '','', ''Val'', '')'']),
          Define ''IAR_CLEAR_STATUS_FLAG'' (fn_macro [''Bitmask'']
            [''__clear_status_flag'', ''('', ''Bitmask'', '')'']),
          Define ''IAR_SET_STATUS_FLAG'' (fn_macro [''Bitmask'']
            [''__set_status_flag'', ''('', ''Bitmask'', '')''])]
       @ (if \<not> pp_defined env ''__DOXYGEN__'' then
            [Define ''__COMPILER_SPECIFIC'' (fn_macro [''x''] [''IAR_'', ''##'', ''x''])]
          else [])
     else
       [Define ''IAR_IS_PART_DEFINED'' (fn_macro [''x''] [''0'']),
        Define ''IAR_ISR'' (va_macro [''Name''] []),
        Define ''IAR_READ_SYS_REGISTER'' (fn_macro [''Reg''] []),
        Define ''IAR_WRITE_SYS_REGISTER'' (fn_macro [''Reg'', ''Val''] []),
        Define ''IAR_CLEAR_STATUS_FLAG'' (fn_macro [''Bitmask''] []),
        Define ''IAR_SET_STATUS_FLAG'' (fn_macro [''Bitmask''] [])])\<close>

subsection \<open>The whole file\<close>

text \<open>
  With the include guard already set the file contributes nothing. Otherwise it sets
  the guard, stops at \<open>#error\<close> (line 59) when \<open>__INCLUDE_FROM_COMMON_H\<close> is missing, and
  else runs the two groups one after the other.
\<close>

definition CompilerSpecific_h :: "build_env \<Rightarrow> pp_error + directive list" where
  "CompilerSpecific_h env =
    (if \<not> first_inclusion env then Inr []
     else if \<not> included_via_umbrella env then
       Inl (Hash_error
         ''Do not include this file directly. Include LUFA/Common/Common.h instead to gain this functionality.'')
     else Inr (Define ''__LUFA_COMPILERSPEC_H__'' (obj_macro []) # gcc_group env @ iar_group env))"

text \<open>The directives of an inclusion; none when the file stopped at \<open>#error\<close>.\<close>

definition directives_of :: "build_env \<Rightarrow> directive list" where
  "directives_of env = (case CompilerSpecific_h env of Inl e \<Rightarrow> [] | Inr ds \<Rightarrow> ds)"

subsection \<open>Looking a macro up and invoking it\<close>

text \<open>
  A later \<open>#define\<close> of a name replaces an earlier one. Only \<open>__COMPILER_SPECIFIC\<close> can
  be defined twice, when both groups are active; a compiler reports that redefinition.
\<close>

fun pp_lookup :: "directive list \<Rightarrow> string \<Rightarrow> macro option" where
  "pp_lookup [] n = None"
| "pp_lookup (Define m mac # ds) n =
     (case pp_lookup ds n of
        Some later \<Rightarrow> Some later
      | None \<Rightarrow> if m = n then Some mac else None)"
| "pp_lookup (Include f # ds) n = pp_lookup ds n"

text \<open>
  An invocation gives one token list per argument (\<open>F()\<close> of a macro without
  parameters gives none). A macro without \<open>...\<close> takes exactly as many arguments as it
  has parameters. A variadic one takes at least that many: the variable part may be
  left out, as GNU cpp allows. White space between two tokens of an argument is written
  as the token \<open>'' ''\<close>: it is carried along as it is, and only the operator \<open>#\<close> reads it.
\<close>

definition arity_ok :: "macro \<Rightarrow> string list list \<Rightarrow> bool" where
  "arity_ok m args =
    (case params m of
       None \<Rightarrow> False
     | Some ps \<Rightarrow> if variadic m then length ps \<le> length args else length args = length ps)"

fun join_commas :: "string list list \<Rightarrow> string list" where
  "join_commas [] = []"
| "join_commas [a] = a"
| "join_commas (a # b # rest) = a @ '','' # join_commas (b # rest)"

definition binding :: "macro \<Rightarrow> string list list \<Rightarrow> string \<Rightarrow> string list option" where
  "binding m args =
    (case params m of
       None \<Rightarrow> Map.empty
     | Some ps \<Rightarrow>
         if variadic m
         then (map_of (zip ps args))(''__VA_ARGS__'' \<mapsto> join_commas (drop (length ps) args))
         else map_of (zip ps args))"

text \<open>
  The operator \<open>#\<close>: the spelling of the argument as one string literal. White space
  before the first and after the last token is dropped and every other run of white
  space becomes one space; tokens that touch in the source stay together. Inside a
  string literal or a character constant each double quote and each backslash gets a
  backslash in front. The variable arguments are spelled with the commas between them.
\<close>

definition is_space :: "string \<Rightarrow> bool" where
  "is_space t = (t = '' '')"

definition token_spelling :: "string \<Rightarrow> string" where
  "token_spelling t =
    (if CHR 0x22 \<in> set t \<or> CHR 0x27 \<in> set t
     then concat (map (\<lambda>c. if c = CHR 0x22 \<or> c = CHR 0x5C then [CHR 0x5C, c] else [c]) t)
     else t)"

fun spelling :: "bool \<Rightarrow> string list \<Rightarrow> string" where
  "spelling gap [] = []"
| "spelling gap (t # ts) =
     (if is_space t then spelling True ts
      else (if gap then '' '' else []) @ token_spelling t @ spelling False ts)"

definition stringify :: "string list \<Rightarrow> string" where
  "stringify a = CHR 0x22 # spelling False (dropWhile is_space a) @ [CHR 0x22]"

datatype piece = Seg "string list" | Glue

fun pieces :: "(string \<Rightarrow> string list option) \<Rightarrow> string list \<Rightarrow> piece list" where
  "pieces b [] = []"
| "pieces b (t # ts) =
     (if t = ''##'' then Glue # pieces b ts
      else if t = ''#'' then
        (case ts of
           [] \<Rightarrow> [Seg [''#'']]
         | u # us \<Rightarrow>
             (case b u of
                Some a \<Rightarrow> Seg [stringify a] # pieces b us
              | None \<Rightarrow> Seg [''#''] # pieces b ts))
      else (case b t of Some a \<Rightarrow> Seg a # pieces b ts | None \<Rightarrow> Seg [t] # pieces b ts))"

text \<open>
  The operator \<open>##\<close> joins the last token on its left with the first on its right; an
  empty argument is a placemarker and leaves the other side as it is.
\<close>

definition glue :: "string list \<Rightarrow> string list \<Rightarrow> string list" where
  "glue a b =
    (if a = [] then b else if b = [] then a else butlast a @ [last a @ hd b] @ tl b)"

fun paste_all :: "piece list \<Rightarrow> string list" where
  "paste_all [] = []"
| "paste_all (Seg a # Glue # Seg b # rest) = paste_all (Seg (glue a b) # rest)"
| "paste_all (Seg a # rest) = a @ paste_all rest"
| "paste_all (Glue # rest) = paste_all rest"

text \<open>
  One replacement step: the arguments are substituted and \<open>#\<close> and \<open>##\<close> applied. The
  result is not scanned again for further macro names.
\<close>

definition expand :: "string \<Rightarrow> macro \<Rightarrow> string list list \<Rightarrow> pp_error + string list" where
  "expand n m args =
    (case params m of
       None \<Rightarrow> Inl (Not_function_like n)
     | Some ps \<Rightarrow>
         if arity_ok m args then Inr (paste_all (pieces (binding m args) (body m)))
         else Inl (Wrong_argument_count n (length ps) (length args)))"

definition pp_call :: "directive list \<Rightarrow> string \<Rightarrow> string list list \<Rightarrow> pp_error + string list" where
  "pp_call ds n args =
    (case pp_lookup ds n of
       None \<Rightarrow> Inl (Undefined_macro n)
     | Some m \<Rightarrow> expand n m args)"

subsection \<open>Toolchain families\<close>

text \<open>
  A family is active when the \<open>#if\<close> group of its compiler (line 64 for GCC, line 117 for
  IAR) is the one taken. The fallback is the case where both \<open>#else\<close> groups are taken.
\<close>

datatype family = GCC | IAR | Fallback

definition fallback_family :: "build_env \<Rightarrow> bool" where
  "fallback_family env = (\<not> gcc_family env \<and> \<not> iar_family env)"

definition active_families :: "build_env \<Rightarrow> family list" where
  "active_families env =
     (if gcc_family env then [GCC] else [])
     @ (if iar_family env then [IAR] else [])
     @ (if fallback_family env then [Fallback] else [])"

subsection \<open>Primitives and the dispatch name\<close>

text \<open>The nine names that follow \<open>GCC_\<close> in lines 106 to 114.\<close>

definition primitives :: "string list" where
  "primitives =
    [''FORCE_POINTER_ACCESS'', ''MEMORY_BARRIER'', ''IS_COMPILE_CONST'', ''IS_PART_DEFINED'',
     ''ISR'', ''READ_SYS_REGISTER'', ''WRITE_SYS_REGISTER'', ''CLEAR_STATUS_FLAG'',
     ''SET_STATUS_FLAG'']"

text \<open>The seven names that follow \<open>IAR_\<close> in lines 120 to 137.\<close>

definition iar_primitives :: "string list" where
  "iar_primitives =
    [''MEMORY_BARRIER'', ''IS_PART_DEFINED'', ''ISR'', ''READ_SYS_REGISTER'',
     ''WRITE_SYS_REGISTER'', ''CLEAR_STATUS_FLAG'', ''SET_STATUS_FLAG'']"

text \<open>
  \<open>__COMPILER_SPECIFIC(p)\<close> pastes the family prefix onto \<open>p\<close>; the macro of that name,
  if there is one, is what the dispatch name resolves to.
\<close>

definition facade_target :: "directive list \<Rightarrow> string \<Rightarrow> macro option" where
  "facade_target ds p =
    (case pp_call ds ''__COMPILER_SPECIFIC'' [[p]] of
       Inl e \<Rightarrow> None
     | Inr ts \<Rightarrow> if length ts = 1 then pp_lookup ds (hd ts) else None)"

subsection \<open>Example environments\<close>

text \<open>
  The names that are defined and the value of \<open>ARCH\<close>, with the three architecture
  constants numbered 0 (AVR), 1 (UC3) and 2 (XMEGA).
\<close>

definition example_env :: "string list \<Rightarrow> int \<Rightarrow> build_env" where
  "example_env names arch =
     \<lparr>predefined = set names, ARCH = arch, ARCH_AVR = 0, ARCH_XMEGA = 2, ARCH_UC3 = 1\<rparr>"

section \<open>Properties\<close>

subsection \<open>Looking names up in the output of the file\<close>

lemmas cond_defs = first_inclusion_def included_via_umbrella_def gcc_family_def iar_family_def
  arch_avr_or_xmega_def arch_uc3_def fallback_family_def pp_defined_def example_env_def
lemmas call_defs = pp_call_def expand_def arity_ok_def binding_def glue_def fn_macro_def
  va_macro_def

lemma pp_lookup_append:
  "pp_lookup (xs @ ys) n =
     (case pp_lookup ys n of Some m \<Rightarrow> Some m | None \<Rightarrow> pp_lookup xs n)"
proof (induction xs)
  case Nil
  show ?case by (simp split: option.split)
next
  case (Cons d xs)
  then show ?case by (cases d) (simp_all split: option.split)
qed

lemma header_ok:
  "first_inclusion env \<Longrightarrow> included_via_umbrella env \<Longrightarrow>
   directives_of env
     = Define ''__LUFA_COMPILERSPEC_H__'' (obj_macro []) # gcc_group env @ iar_group env"
  by (simp add: directives_of_def CompilerSpecific_h_def)

lemma header_no_error:
  "included_via_umbrella env \<Longrightarrow> \<not> isl (CompilerSpecific_h env)"
  by (simp add: CompilerSpecific_h_def)

lemma iar_group_no_gcc_name: "pp_lookup (iar_group env) (CHR ''G'' # s) = None"
  by (simp add: iar_group_def)

lemma gcc_group_no_iar_name: "pp_lookup (gcc_group env) (CHR ''I'' # s) = None"
  by (simp add: gcc_group_def)

lemma lookup_gcc_name:
  "first_inclusion env \<Longrightarrow> included_via_umbrella env \<Longrightarrow>
   pp_lookup (directives_of env) (CHR ''G'' # s) = pp_lookup (gcc_group env) (CHR ''G'' # s)"
  by (simp add: header_ok pp_lookup_append iar_group_no_gcc_name split: option.split)

lemma lookup_iar_name:
  "first_inclusion env \<Longrightarrow> included_via_umbrella env \<Longrightarrow>
   pp_lookup (directives_of env) (CHR ''I'' # s) = pp_lookup (iar_group env) (CHR ''I'' # s)"
  by (simp add: header_ok pp_lookup_append gcc_group_no_iar_name split: option.split)

lemmas lookup_name = lookup_gcc_name lookup_iar_name

text \<open>What the GCC group leaves behind for each of its names.\<close>

lemma gcc_FORCE_POINTER_ACCESS:
  \<open>pp_lookup (gcc_group env) ''GCC_FORCE_POINTER_ACCESS'' =
     Some (if gcc_family env
           then fn_macro [''StructPtr'']
                  [''__asm__'', ''__volatile__'', ''('', ''""'', '':'', ''"=b"'', ''('',
                   ''StructPtr'', '')'', '':'', ''"0"'', ''('', ''StructPtr'', '')'', '')'']
           else fn_macro [''StructPtr''] [])\<close>
  by (simp add: gcc_group_def)

lemma gcc_MEMORY_BARRIER:
  \<open>pp_lookup (gcc_group env) ''GCC_MEMORY_BARRIER'' =
     Some (if gcc_family env
           then fn_macro []
                  [''__asm__'', ''__volatile__'', ''('', ''""'', '':'', '':'', '':'',
                   ''"memory"'', '')'', '';'']
           else fn_macro [] [])\<close>
  by (simp add: gcc_group_def)

lemma gcc_IS_COMPILE_CONST:
  "pp_lookup (gcc_group env) ''GCC_IS_COMPILE_CONST'' =
     Some (if gcc_family env
           then fn_macro [''x''] [''__builtin_constant_p'', ''('', ''x'', '')'']
           else fn_macro [''x''] [''0''])"
  by (simp add: gcc_group_def)

lemma gcc_IS_PART_DEFINED:
  "pp_lookup (gcc_group env) ''GCC_IS_PART_DEFINED'' =
     (if gcc_family env then
        (if arch_avr_or_xmega env then
           Some (fn_macro [''x''] [''defined'', ''('', ''__AVR_'', ''##'', ''x'', ''##'', ''__'', '')''])
         else if arch_uc3 env then
           Some (fn_macro [''x''] [''defined'', ''('', ''__AVR32_'', ''##'', ''x'', ''##'', ''__'', '')''])
         else None)
      else Some (fn_macro [''x''] [''0'']))"
  by (simp add: gcc_group_def)

lemma gcc_ISR:
  "pp_lookup (gcc_group env) ''GCC_ISR'' =
     Some (if gcc_family env
           then va_macro [''Name'']
                  [''void'', ''Name'', ''('', ''void'', '')'', ''__attribute__'', ''('', ''('',
                   ''__interrupt__'', '')'', '')'', ''__VA_ARGS__'', '';'',
                   ''void'', ''Name'', ''('', ''void'', '')'']
           else va_macro [''Name''] [])"
  by (simp add: gcc_group_def)

lemma gcc_READ_SYS_REGISTER:
  "pp_lookup (gcc_group env) ''GCC_READ_SYS_REGISTER'' =
     Some (if gcc_family env
           then fn_macro [''Reg''] [''__builtin_mfsr'', ''('', ''Reg'', '')'']
           else fn_macro [''Reg''] [])"
  by (simp add: gcc_group_def)

lemma gcc_WRITE_SYS_REGISTER:
  "pp_lookup (gcc_group env) ''GCC_WRITE_SYS_REGISTER'' =
     Some (if gcc_family env
           then fn_macro [''Reg'', ''Val''] [''__builtin_mtsr'', ''('', ''Reg'', '','', ''Val'', '')'']
           else fn_macro [''Reg'', ''Val''] [])"
  by (simp add: gcc_group_def)

lemma gcc_CLEAR_STATUS_FLAG:
  "pp_lookup (gcc_group env) ''GCC_CLEAR_STATUS_FLAG'' =
     Some (if gcc_family env
           then fn_macro [''Bitmask''] [''__builtin_csrf'', ''('', ''Bitmask'', '')'']
           else fn_macro [''Bitmask''] [])"
  by (simp add: gcc_group_def)

lemma gcc_SET_STATUS_FLAG:
  "pp_lookup (gcc_group env) ''GCC_SET_STATUS_FLAG'' =
     Some (if gcc_family env
           then fn_macro [''Bitmask''] [''__builtin_ssrf'', ''('', ''Bitmask'', '')'']
           else fn_macro [''Bitmask''] [])"
  by (simp add: gcc_group_def)

lemma gcc_COMPILER_SPECIFIC:
  "pp_lookup (gcc_group env) ''__COMPILER_SPECIFIC''
     = (if gcc_family env \<and> \<not> pp_defined env ''__DOXYGEN__''
        then Some (fn_macro [''x''] [''GCC_'', ''##'', ''x'']) else None)"
  by (simp add: gcc_group_def)

lemmas gcc_table = gcc_FORCE_POINTER_ACCESS gcc_MEMORY_BARRIER gcc_IS_COMPILE_CONST
  gcc_IS_PART_DEFINED gcc_ISR gcc_READ_SYS_REGISTER gcc_WRITE_SYS_REGISTER
  gcc_CLEAR_STATUS_FLAG gcc_SET_STATUS_FLAG

text \<open>What the IAR group leaves behind for each name with the prefix \<open>IAR_\<close>.\<close>

lemma iar_FORCE_POINTER_ACCESS:
  "pp_lookup (iar_group env) ''IAR_FORCE_POINTER_ACCESS'' = None"
  by (simp add: iar_group_def)

lemma iar_IS_COMPILE_CONST:
  "pp_lookup (iar_group env) ''IAR_IS_COMPILE_CONST'' = None"
  by (simp add: iar_group_def)

lemma iar_MEMORY_BARRIER:
  \<open>pp_lookup (iar_group env) ''IAR_MEMORY_BARRIER'' =
     (if iar_family env then Some (fn_macro [] [''__asm'', ''('', ''""'', '')'']) else None)\<close>
  by (simp add: iar_group_def)

lemma iar_IS_PART_DEFINED:
  "pp_lookup (iar_group env) ''IAR_IS_PART_DEFINED'' =
     (if iar_family env then
        (if arch_avr_or_xmega env then
           Some (fn_macro [''x''] [''defined'', ''('', ''__AT'', ''##'', ''x'', ''##'', ''__'', '')''])
         else if arch_uc3 env then
           Some (fn_macro [''x''] [''defined'', ''('', ''__AT32'', ''##'', ''x'', ''##'', ''__'', '')''])
         else None)
      else Some (fn_macro [''x''] [''0'']))"
  by (simp add: iar_group_def)

lemma iar_ISR:
  "pp_lookup (iar_group env) ''IAR_ISR'' =
     Some (if iar_family env
           then fn_macro [''Name'', ''Group'', ''Level'']
                  [''__IAR_ISR_PRAGMA'', ''('', ''handler'', ''='', ''Group'', '','', ''Level'',
                   '')'', ''__interrupt'', ''void'', ''Name'', ''('', ''void'', '')'']
           else va_macro [''Name''] [])"
  by (simp add: iar_group_def)

lemma iar_READ_SYS_REGISTER:
  "pp_lookup (iar_group env) ''IAR_READ_SYS_REGISTER'' =
     Some (if iar_family env
           then fn_macro [''Reg''] [''__get_system_register'', ''('', ''Reg'', '')'']
           else fn_macro [''Reg''] [])"
  by (simp add: iar_group_def)

lemma iar_WRITE_SYS_REGISTER:
  "pp_lookup (iar_group env) ''IAR_WRITE_SYS_REGISTER'' =
     Some (if iar_family env
           then fn_macro [''Reg'', ''Val'']
                  [''__set_system_register'', ''('', ''Reg'', '','', ''Val'', '')'']
           else fn_macro [''Reg'', ''Val''] [])"
  by (simp add: iar_group_def)

lemma iar_CLEAR_STATUS_FLAG:
  "pp_lookup (iar_group env) ''IAR_CLEAR_STATUS_FLAG'' =
     Some (if iar_family env
           then fn_macro [''Bitmask''] [''__clear_status_flag'', ''('', ''Bitmask'', '')'']
           else fn_macro [''Bitmask''] [])"
  by (simp add: iar_group_def)

lemma iar_SET_STATUS_FLAG:
  "pp_lookup (iar_group env) ''IAR_SET_STATUS_FLAG'' =
     Some (if iar_family env
           then fn_macro [''Bitmask''] [''__set_status_flag'', ''('', ''Bitmask'', '')'']
           else fn_macro [''Bitmask''] [])"
  by (simp add: iar_group_def)

lemma iar_COMPILER_SPECIFIC:
  "pp_lookup (iar_group env) ''__COMPILER_SPECIFIC''
     = (if iar_family env \<and> \<not> pp_defined env ''__DOXYGEN__''
        then Some (fn_macro [''x''] [''IAR_'', ''##'', ''x'']) else None)"
  by (simp add: iar_group_def)

lemma iar_ISR_PRAGMA:
  "pp_lookup (iar_group env) ''__IAR_ISR_PRAGMA''
     = (if iar_family env \<and> \<not> pp_defined env ''__DOXYGEN__''
        then Some (va_macro [] [''_Pragma'', ''('', ''#'', ''__VA_ARGS__'', '')'']) else None)"
  by (simp add: iar_group_def)

lemma lookup_ISR_PRAGMA:
  "first_inclusion env \<Longrightarrow> included_via_umbrella env \<Longrightarrow>
   pp_lookup (directives_of env) ''__IAR_ISR_PRAGMA''
     = pp_lookup (iar_group env) ''__IAR_ISR_PRAGMA''"
  by (simp add: header_ok pp_lookup_append gcc_group_def split: option.split)

lemmas iar_table = iar_FORCE_POINTER_ACCESS iar_IS_COMPILE_CONST iar_MEMORY_BARRIER
  iar_IS_PART_DEFINED iar_ISR iar_READ_SYS_REGISTER iar_WRITE_SYS_REGISTER
  iar_CLEAR_STATUS_FLAG iar_SET_STATUS_FLAG

lemmas tables = lookup_name gcc_table iar_table

text \<open>The dispatch name: the IAR group comes last, so its definition wins.\<close>

lemma lookup_facade:
  "first_inclusion env \<Longrightarrow> included_via_umbrella env \<Longrightarrow>
   pp_lookup (directives_of env) ''__COMPILER_SPECIFIC''
     = (if iar_family env \<and> \<not> pp_defined env ''__DOXYGEN__''
        then Some (fn_macro [''x''] [''IAR_'', ''##'', ''x''])
        else if gcc_family env \<and> \<not> pp_defined env ''__DOXYGEN__''
        then Some (fn_macro [''x''] [''GCC_'', ''##'', ''x''])
        else None)"
  by (simp add: header_ok pp_lookup_append gcc_COMPILER_SPECIFIC iar_COMPILER_SPECIFIC)

lemma facade_target_gcc:
  "pp_lookup ds ''__COMPILER_SPECIFIC'' = Some (fn_macro [''x''] [''GCC_'', ''##'', ''x''])
   \<Longrightarrow> facade_target ds p = pp_lookup ds (''GCC_'' @ p)"
  by (simp add: facade_target_def call_defs)

lemma facade_target_iar:
  "pp_lookup ds ''__COMPILER_SPECIFIC'' = Some (fn_macro [''x''] [''IAR_'', ''##'', ''x''])
   \<Longrightarrow> facade_target ds p = pp_lookup ds (''IAR_'' @ p)"
  by (simp add: facade_target_def call_defs)

lemma all_gcc_primitives_defined:
  assumes "first_inclusion env" and "included_via_umbrella env"
    and "\<not> gcc_family env \<or> arch_avr_or_xmega env \<or> arch_uc3 env"
  shows "\<forall>p \<in> set primitives. pp_lookup (directives_of env) (''GCC_'' @ p) \<noteq> None"
  using assms by (auto simp add: primitives_def tables)

lemma all_iar_primitives_defined:
  assumes "first_inclusion env" and "included_via_umbrella env"
    and "iar_family env" and "arch_avr_or_xmega env \<or> arch_uc3 env"
  shows "\<forall>p \<in> set iar_primitives. pp_lookup (directives_of env) (''IAR_'' @ p) \<noteq> None"
  using assms by (auto simp add: iar_primitives_def tables)

lemma gcc_fallback_bodies:
  assumes "first_inclusion env" and "included_via_umbrella env" and "\<not> gcc_family env"
  shows "\<forall>p \<in> set primitives.
      map_option body (pp_lookup (directives_of env) (''GCC_'' @ p)) \<in> {Some [], Some [''0'']}"
  using assms by (simp add: primitives_def tables fn_macro_def va_macro_def)

lemma glue_twice_hd:
  "hd (glue (glue [p] x) [u]) = p @ (if x = [] then u else if tl x = [] then hd x @ u else hd x)"
proof (cases x)
  case Nil
  then show ?thesis by (simp add: glue_def)
next
  case (Cons t ts)
  then show ?thesis by (cases ts) (simp_all add: glue_def)
qed

lemma glue_twice_differs:
  assumes "\<And>s. p @ s \<noteq> q @ s"
  shows "glue (glue [p] x) [u] @ r \<noteq> glue (glue [q] x) [u] @ r"
proof
  assume "glue (glue [p] x) [u] @ r = glue (glue [q] x) [u] @ r"
  then have "hd (glue (glue [p] x) [u]) = hd (glue (glue [q] x) [u])" by simp
  then show False using assms by (simp add: glue_twice_hd)
qed

lemma gcc_prefixes_differ: "''__AVR_'' @ s \<noteq> ''__AVR32_'' @ s"
  by simp

lemma iar_prefixes_differ: "''__AT'' @ s \<noteq> ''__AT32'' @ s"
proof
  assume "''__AT'' @ s = ''__AT32'' @ s"
  then have "length (''__AT'' @ s) = length (''__AT32'' @ s)" by (rule arg_cong)
  then show False by simp
qed

lemma part_query_expansion:
  "expand n (fn_macro [''x''] [''defined'', ''('', pre, ''##'', ''x'', ''##'', ''__'', '')'']) [y]
     = Inr (''defined'' # ''('' # glue (glue [pre] y) [''__''] @ ['')''])"
  if "pre \<noteq> ''##''" and "pre \<noteq> ''#''" and "pre \<noteq> ''x''"
  using that by (simp add: expand_def arity_ok_def binding_def fn_macro_def)

subsection \<open>Defined expansions and the dispatch name\<close>

text \<open>
  C1, as stated, fails. With only \<open>__INCLUDE_FROM_COMMON_H\<close> defined (the Fallback
  Family) the file is processed without error and leaves \<open>__COMPILER_SPECIFIC\<close>
  undefined: neither \<open>#else\<close> group defines it. A use of the dispatch name for the
  memory barrier is then a use of an undefined macro.
\<close>

theorem dispatch_name_undefined_under_fallback_counterexample:
  "fallback_family (example_env [''__INCLUDE_FROM_COMMON_H''] 0)
   \<and> \<not> isl (CompilerSpecific_h (example_env [''__INCLUDE_FROM_COMMON_H''] 0))
   \<and> pp_lookup (directives_of (example_env [''__INCLUDE_FROM_COMMON_H''] 0))
        ''__COMPILER_SPECIFIC'' = None
   \<and> pp_call (directives_of (example_env [''__INCLUDE_FROM_COMMON_H''] 0))
        ''__COMPILER_SPECIFIC'' [[''MEMORY_BARRIER'']]
      = Inl (Undefined_macro ''__COMPILER_SPECIFIC'')
   \<and> facade_target (directives_of (example_env [''__INCLUDE_FROM_COMMON_H''] 0))
        ''MEMORY_BARRIER'' = None"
  by (simp add: facade_target_def pp_call_def lookup_facade CompilerSpecific_h_def cond_defs)

text \<open>
  C1, amended. On the first inclusion through the umbrella header:
  \<^item> each of the nine primitives has a defined \<open>GCC_\<close> macro, unless the GCC group is the
    active one and the target architecture is not a recognised one; where the GCC group
    is not active, the replacement list of each is empty or \<open>0\<close>;
  \<^item> \<open>__COMPILER_SPECIFIC\<close> is defined exactly when \<open>__GNUC__\<close> or \<open>__ICCAVR32__\<close> is defined
    and \<open>__DOXYGEN__\<close> is not, so it is not defined under the Fallback Family;
  \<^item> with \<open>__GNUC__\<close> alone and a recognised architecture the dispatch name resolves each
    of the nine primitives to its \<open>GCC_\<close> macro;
  \<^item> with \<open>__ICCAVR32__\<close> alone and a recognised architecture it resolves each of the
    seven primitives of the IAR group to its \<open>IAR_\<close> macro.
\<close>

theorem primitives_defined_amended:
  assumes "first_inclusion env" and "included_via_umbrella env"
  shows "(\<not> gcc_family env \<or> arch_avr_or_xmega env \<or> arch_uc3 env \<longrightarrow>
            (\<forall>p \<in> set primitives. pp_lookup (directives_of env) (''GCC_'' @ p) \<noteq> None))
    \<and> (\<not> gcc_family env \<longrightarrow>
            (\<forall>p \<in> set primitives.
               map_option body (pp_lookup (directives_of env) (''GCC_'' @ p))
                 \<in> {Some [], Some [''0'']}))
    \<and> ((pp_lookup (directives_of env) ''__COMPILER_SPECIFIC'' \<noteq> None)
         = ((pp_defined env ''__GNUC__'' \<or> pp_defined env ''__ICCAVR32__'')
            \<and> \<not> pp_defined env ''__DOXYGEN__''))
    \<and> (pp_defined env ''__GNUC__'' \<and> \<not> pp_defined env ''__ICCAVR32__''
         \<and> \<not> pp_defined env ''__DOXYGEN__'' \<and> (arch_avr_or_xmega env \<or> arch_uc3 env) \<longrightarrow>
            (\<forall>p \<in> set primitives.
               facade_target (directives_of env) p \<noteq> None
               \<and> facade_target (directives_of env) p
                   = pp_lookup (directives_of env) (''GCC_'' @ p)))
    \<and> (pp_defined env ''__ICCAVR32__'' \<and> \<not> pp_defined env ''__GNUC__''
         \<and> \<not> pp_defined env ''__DOXYGEN__'' \<and> (arch_avr_or_xmega env \<or> arch_uc3 env) \<longrightarrow>
            (\<forall>p \<in> set iar_primitives.
               facade_target (directives_of env) p \<noteq> None
               \<and> facade_target (directives_of env) p
                   = pp_lookup (directives_of env) (''IAR_'' @ p)))"
proof (intro conjI impI)
  assume "\<not> gcc_family env \<or> arch_avr_or_xmega env \<or> arch_uc3 env"
  then show "\<forall>p \<in> set primitives. pp_lookup (directives_of env) (''GCC_'' @ p) \<noteq> None"
    using assms by (rule all_gcc_primitives_defined [rotated 2])
next
  assume "\<not> gcc_family env"
  then show "\<forall>p \<in> set primitives.
      map_option body (pp_lookup (directives_of env) (''GCC_'' @ p)) \<in> {Some [], Some [''0'']}"
    using assms by (rule gcc_fallback_bodies [rotated 2])
next
  show "(pp_lookup (directives_of env) ''__COMPILER_SPECIFIC'' \<noteq> None)
      = ((pp_defined env ''__GNUC__'' \<or> pp_defined env ''__ICCAVR32__'')
         \<and> \<not> pp_defined env ''__DOXYGEN__'')"
    using assms by (auto simp add: lookup_facade gcc_family_def iar_family_def)
next
  assume h: "pp_defined env ''__GNUC__'' \<and> \<not> pp_defined env ''__ICCAVR32__''
    \<and> \<not> pp_defined env ''__DOXYGEN__'' \<and> (arch_avr_or_xmega env \<or> arch_uc3 env)"
  then have g: "gcc_family env" and i: "\<not> iar_family env"
    by (simp_all add: gcc_family_def iar_family_def)
  have "pp_lookup (directives_of env) ''__COMPILER_SPECIFIC''
      = Some (fn_macro [''x''] [''GCC_'', ''##'', ''x''])"
    using h g i assms by (simp add: lookup_facade)
  then have t: "facade_target (directives_of env) p = pp_lookup (directives_of env) (''GCC_'' @ p)"
    for p by (rule facade_target_gcc)
  have "\<forall>p \<in> set primitives. pp_lookup (directives_of env) (''GCC_'' @ p) \<noteq> None"
    using assms h by (intro all_gcc_primitives_defined) simp_all
  then show "\<forall>p \<in> set primitives.
      facade_target (directives_of env) p \<noteq> None
      \<and> facade_target (directives_of env) p = pp_lookup (directives_of env) (''GCC_'' @ p)"
    unfolding t by simp
next
  assume h: "pp_defined env ''__ICCAVR32__'' \<and> \<not> pp_defined env ''__GNUC__''
    \<and> \<not> pp_defined env ''__DOXYGEN__'' \<and> (arch_avr_or_xmega env \<or> arch_uc3 env)"
  then have i: "iar_family env" by (simp add: iar_family_def)
  have "pp_lookup (directives_of env) ''__COMPILER_SPECIFIC''
      = Some (fn_macro [''x''] [''IAR_'', ''##'', ''x''])"
    using h i assms by (simp add: lookup_facade)
  then have t: "facade_target (directives_of env) p = pp_lookup (directives_of env) (''IAR_'' @ p)"
    for p by (rule facade_target_iar)
  have "\<forall>p \<in> set iar_primitives. pp_lookup (directives_of env) (''IAR_'' @ p) \<noteq> None"
    using assms i h by (intro all_iar_primitives_defined) simp_all
  then show "\<forall>p \<in> set iar_primitives.
      facade_target (directives_of env) p \<noteq> None
      \<and> facade_target (directives_of env) p = pp_lookup (directives_of env) (''IAR_'' @ p)"
    unfolding t by simp
qed

text \<open>
  The amended C1 at three environments: GCC for UC3 (every \<open>GCC_\<close> primitive and the
  dispatch name defined), no recognised compiler (the fallback constant query is \<open>0\<close>),
  and IAR for UC3 (the dispatch name resolves the ISR declaration to \<open>IAR_ISR\<close>).
\<close>

theorem primitives_defined_amended_witness:
  "first_inclusion (example_env [''__INCLUDE_FROM_COMMON_H'', ''__GNUC__''] 1)
   \<and> included_via_umbrella (example_env [''__INCLUDE_FROM_COMMON_H'', ''__GNUC__''] 1)
   \<and> arch_uc3 (example_env [''__INCLUDE_FROM_COMMON_H'', ''__GNUC__''] 1)
   \<and> pp_lookup (directives_of (example_env [''__INCLUDE_FROM_COMMON_H'', ''__GNUC__''] 1))
        ''GCC_IS_PART_DEFINED'' \<noteq> None
   \<and> pp_lookup (directives_of (example_env [''__INCLUDE_FROM_COMMON_H'', ''__GNUC__''] 1))
        ''__COMPILER_SPECIFIC'' \<noteq> None
   \<and> facade_target (directives_of (example_env [''__INCLUDE_FROM_COMMON_H'', ''__GNUC__''] 1))
        ''MEMORY_BARRIER''
      = pp_lookup (directives_of (example_env [''__INCLUDE_FROM_COMMON_H'', ''__GNUC__''] 1))
          ''GCC_MEMORY_BARRIER''
   \<and> first_inclusion (example_env [''__INCLUDE_FROM_COMMON_H''] 7)
   \<and> included_via_umbrella (example_env [''__INCLUDE_FROM_COMMON_H''] 7)
   \<and> \<not> gcc_family (example_env [''__INCLUDE_FROM_COMMON_H''] 7)
   \<and> map_option body (pp_lookup (directives_of (example_env [''__INCLUDE_FROM_COMMON_H''] 7))
        ''GCC_IS_COMPILE_CONST'') \<in> {Some [], Some [''0'']}
   \<and> first_inclusion (example_env [''__INCLUDE_FROM_COMMON_H'', ''__ICCAVR32__''] 1)
   \<and> included_via_umbrella (example_env [''__INCLUDE_FROM_COMMON_H'', ''__ICCAVR32__''] 1)
   \<and> facade_target (directives_of (example_env [''__INCLUDE_FROM_COMMON_H'', ''__ICCAVR32__''] 1))
        ''ISR''
      = pp_lookup (directives_of (example_env [''__INCLUDE_FROM_COMMON_H'', ''__ICCAVR32__''] 1))
          ''IAR_ISR''"
  using primitives_defined_amended [of "example_env [''__INCLUDE_FROM_COMMON_H'', ''__GNUC__''] 1"]
    primitives_defined_amended [of "example_env [''__INCLUDE_FROM_COMMON_H''] 7"]
    primitives_defined_amended [of "example_env [''__INCLUDE_FROM_COMMON_H'', ''__ICCAVR32__''] 1"]
  by (simp add: cond_defs primitives_def iar_primitives_def)

subsection \<open>Which families are active\<close>

text \<open>
  C2, as stated, fails. The two groups are separate \<open>#if\<close> blocks, and each also tests
  \<open>__DOXYGEN__\<close>. With \<open>__GNUC__\<close> and \<open>__ICCAVR32__\<close> both defined the GCC and the IAR
  family are both active, and the file leaves the compiler's own register read of both
  behind; with \<open>__DOXYGEN__\<close> defined both are active as well.
\<close>

theorem two_families_active_counterexample:
  "active_families (example_env [''__INCLUDE_FROM_COMMON_H'', ''__GNUC__'', ''__ICCAVR32__''] 1)
     = [GCC, IAR]
   \<and> pp_lookup
        (directives_of (example_env [''__INCLUDE_FROM_COMMON_H'', ''__GNUC__'', ''__ICCAVR32__''] 1))
        ''GCC_READ_SYS_REGISTER''
      = Some (fn_macro [''Reg''] [''__builtin_mfsr'', ''('', ''Reg'', '')''])
   \<and> pp_lookup
        (directives_of (example_env [''__INCLUDE_FROM_COMMON_H'', ''__GNUC__'', ''__ICCAVR32__''] 1))
        ''IAR_READ_SYS_REGISTER''
      = Some (fn_macro [''Reg''] [''__get_system_register'', ''('', ''Reg'', '')''])
   \<and> active_families (example_env [''__INCLUDE_FROM_COMMON_H'', ''__DOXYGEN__''] 1) = [GCC, IAR]"
  by (simp add: active_families_def tables cond_defs)

text \<open>
  C2, amended. In every build environment at least one family is active. The Fallback
  Family is active exactly when none of \<open>__GNUC__\<close>, \<open>__ICCAVR32__\<close> and \<open>__DOXYGEN__\<close> is
  defined, and it is then the only active family. Exactly one family is active when
  \<open>__DOXYGEN__\<close> is not defined and \<open>__GNUC__\<close> and \<open>__ICCAVR32__\<close> are not both defined.
  When \<open>__DOXYGEN__\<close> is defined, or both compiler names are, the GCC and the IAR family
  are both active. On a first inclusion through the umbrella header a compiler's family is
  active exactly when the file leaves that compiler's own register read behind.
\<close>

theorem active_families_amended:
  "active_families env \<noteq> []
   \<and> (fallback_family env \<longleftrightarrow>
        \<not> pp_defined env ''__GNUC__'' \<and> \<not> pp_defined env ''__ICCAVR32__''
        \<and> \<not> pp_defined env ''__DOXYGEN__'')
   \<and> (fallback_family env \<longrightarrow> active_families env = [Fallback])
   \<and> (\<not> pp_defined env ''__DOXYGEN__''
        \<and> \<not> (pp_defined env ''__GNUC__'' \<and> pp_defined env ''__ICCAVR32__'')
        \<longrightarrow> length (active_families env) = 1)
   \<and> (pp_defined env ''__DOXYGEN__''
        \<or> (pp_defined env ''__GNUC__'' \<and> pp_defined env ''__ICCAVR32__'')
        \<longrightarrow> active_families env = [GCC, IAR])
   \<and> (first_inclusion env \<and> included_via_umbrella env \<longrightarrow>
        (GCC \<in> set (active_families env))
          = (map_option body (pp_lookup (directives_of env) ''GCC_READ_SYS_REGISTER'')
               = Some [''__builtin_mfsr'', ''('', ''Reg'', '')''])
        \<and> (IAR \<in> set (active_families env))
          = (map_option body (pp_lookup (directives_of env) ''IAR_READ_SYS_REGISTER'')
               = Some [''__get_system_register'', ''('', ''Reg'', '')'']))"
proof -
  have shape: "active_families env \<noteq> []
      \<and> (fallback_family env \<longleftrightarrow>
           \<not> pp_defined env ''__GNUC__'' \<and> \<not> pp_defined env ''__ICCAVR32__''
           \<and> \<not> pp_defined env ''__DOXYGEN__'')
      \<and> (fallback_family env \<longrightarrow> active_families env = [Fallback])
      \<and> (\<not> pp_defined env ''__DOXYGEN__''
           \<and> \<not> (pp_defined env ''__GNUC__'' \<and> pp_defined env ''__ICCAVR32__'')
           \<longrightarrow> length (active_families env) = 1)
      \<and> (pp_defined env ''__DOXYGEN__''
           \<or> (pp_defined env ''__GNUC__'' \<and> pp_defined env ''__ICCAVR32__'')
           \<longrightarrow> active_families env = [GCC, IAR])"
    by (auto simp add: active_families_def fallback_family_def gcc_family_def iar_family_def)
  have seen: "(GCC \<in> set (active_families env))
        = (map_option body (pp_lookup (directives_of env) ''GCC_READ_SYS_REGISTER'')
             = Some [''__builtin_mfsr'', ''('', ''Reg'', '')''])
      \<and> (IAR \<in> set (active_families env))
        = (map_option body (pp_lookup (directives_of env) ''IAR_READ_SYS_REGISTER'')
             = Some [''__get_system_register'', ''('', ''Reg'', '')''])"
    if "first_inclusion env" and "included_via_umbrella env"
    using that by (simp add: active_families_def tables fn_macro_def)
  show ?thesis
    using shape seen by blast
qed

text \<open>
  The amended C2 at three environments: GCC alone (one family), no recognised compiler
  (the fallback alone) and the documentation pass (two families).
\<close>

theorem active_families_amended_witness:
  "\<not> pp_defined (example_env [''__INCLUDE_FROM_COMMON_H'', ''__GNUC__''] 0) ''__DOXYGEN__''
   \<and> \<not> pp_defined (example_env [''__INCLUDE_FROM_COMMON_H'', ''__GNUC__''] 0) ''__ICCAVR32__''
   \<and> length (active_families (example_env [''__INCLUDE_FROM_COMMON_H'', ''__GNUC__''] 0)) = 1
   \<and> fallback_family (example_env [''__INCLUDE_FROM_COMMON_H''] 0)
   \<and> active_families (example_env [''__INCLUDE_FROM_COMMON_H''] 0) = [Fallback]
   \<and> pp_defined (example_env [''__INCLUDE_FROM_COMMON_H'', ''__DOXYGEN__''] 0) ''__DOXYGEN__''
   \<and> active_families (example_env [''__INCLUDE_FROM_COMMON_H'', ''__DOXYGEN__''] 0) = [GCC, IAR]
   \<and> first_inclusion (example_env [''__INCLUDE_FROM_COMMON_H'', ''__GNUC__''] 0)
   \<and> included_via_umbrella (example_env [''__INCLUDE_FROM_COMMON_H'', ''__GNUC__''] 0)
   \<and> map_option body
        (pp_lookup (directives_of (example_env [''__INCLUDE_FROM_COMMON_H'', ''__GNUC__''] 0))
           ''GCC_READ_SYS_REGISTER'')
      = Some [''__builtin_mfsr'', ''('', ''Reg'', '')'']"
  using active_families_amended [of "example_env [''__INCLUDE_FROM_COMMON_H'', ''__GNUC__''] 0"]
    active_families_amended [of "example_env [''__INCLUDE_FROM_COMMON_H''] 0"]
    active_families_amended [of "example_env [''__INCLUDE_FROM_COMMON_H'', ''__DOXYGEN__''] 0"]
  by (simp add: cond_defs active_families_def)

subsection \<open>Direct inclusion\<close>

text \<open>
  C3. When the file is processed (its include guard is not yet set) and
  \<open>__INCLUDE_FROM_COMMON_H\<close> is not defined, the result is the \<open>#error\<close> of line 59 with
  its message, which tells the user to include Common.h instead. When
  \<open>__INCLUDE_FROM_COMMON_H\<close> is defined the file produces no error.
\<close>

theorem direct_inclusion_is_rejected:
  "(first_inclusion env \<and> \<not> included_via_umbrella env \<longrightarrow>
      CompilerSpecific_h env = Inl (Hash_error
        ''Do not include this file directly. Include LUFA/Common/Common.h instead to gain this functionality.''))
   \<and> (included_via_umbrella env \<longrightarrow> \<not> isl (CompilerSpecific_h env))"
  by (simp add: CompilerSpecific_h_def)

text \<open>C3 at a direct inclusion under GCC, and at an inclusion through the umbrella.\<close>

theorem direct_inclusion_is_rejected_witness:
  "first_inclusion (example_env [''__GNUC__''] 0)
   \<and> \<not> included_via_umbrella (example_env [''__GNUC__''] 0)
   \<and> CompilerSpecific_h (example_env [''__GNUC__''] 0) = Inl (Hash_error
        ''Do not include this file directly. Include LUFA/Common/Common.h instead to gain this functionality.'')
   \<and> included_via_umbrella (example_env [''__INCLUDE_FROM_COMMON_H'', ''__GNUC__''] 0)
   \<and> \<not> isl (CompilerSpecific_h (example_env [''__INCLUDE_FROM_COMMON_H'', ''__GNUC__''] 0))"
  using direct_inclusion_is_rejected [of "example_env [''__GNUC__''] 0"]
    direct_inclusion_is_rejected [of "example_env [''__INCLUDE_FROM_COMMON_H'', ''__GNUC__''] 0"]
  by (simp add: cond_defs)

subsection \<open>ISR declarations\<close>

text \<open>
  C5. On the first inclusion through the umbrella header: where the IAR group is
  active, \<open>IAR_ISR\<close> takes exactly three arguments, so an invocation with the name
  alone, or with any number of arguments other than three, is rejected; with name,
  group and level it expands. Where the GCC group is active, \<open>GCC_ISR\<close> with the name
  alone and no attribute expands to the declaration and the start of the definition.
\<close>

theorem isr_declaration_arguments:
  assumes "first_inclusion env" and "included_via_umbrella env"
  shows "(iar_family env \<longrightarrow>
            pp_call (directives_of env) ''IAR_ISR'' [name]
              = Inl (Wrong_argument_count ''IAR_ISR'' 3 1))
    \<and> (iar_family env \<and> length args \<noteq> 3 \<longrightarrow>
            pp_call (directives_of env) ''IAR_ISR'' args
              = Inl (Wrong_argument_count ''IAR_ISR'' 3 (length args)))
    \<and> (iar_family env \<longrightarrow>
            pp_call (directives_of env) ''IAR_ISR'' [name, grp, level]
              = Inr ([''__IAR_ISR_PRAGMA'', ''('', ''handler'', ''=''] @ grp @ ['',''] @ level
                     @ ['')'', ''__interrupt'', ''void''] @ name @ [''('', ''void'', '')'']))
    \<and> (gcc_family env \<longrightarrow>
            pp_call (directives_of env) ''GCC_ISR'' [name]
              = Inr ([''void''] @ name
                     @ [''('', ''void'', '')'', ''__attribute__'', ''('', ''('', ''__interrupt__'',
                        '')'', '')'', '';'', ''void''] @ name @ [''('', ''void'', '')'']))"
  using assms by (simp add: tables call_defs)

text \<open>C5 at IAR and at GCC, both for UC3, with the handler name \<open>USB_GEN_vect\<close>.\<close>

theorem isr_declaration_arguments_witness:
  "first_inclusion (example_env [''__INCLUDE_FROM_COMMON_H'', ''__ICCAVR32__''] 1)
   \<and> included_via_umbrella (example_env [''__INCLUDE_FROM_COMMON_H'', ''__ICCAVR32__''] 1)
   \<and> iar_family (example_env [''__INCLUDE_FROM_COMMON_H'', ''__ICCAVR32__''] 1)
   \<and> pp_call (directives_of (example_env [''__INCLUDE_FROM_COMMON_H'', ''__ICCAVR32__''] 1))
        ''IAR_ISR'' [[''USB_GEN_vect'']]
      = Inl (Wrong_argument_count ''IAR_ISR'' 3 1)
   \<and> first_inclusion (example_env [''__INCLUDE_FROM_COMMON_H'', ''__GNUC__''] 1)
   \<and> included_via_umbrella (example_env [''__INCLUDE_FROM_COMMON_H'', ''__GNUC__''] 1)
   \<and> gcc_family (example_env [''__INCLUDE_FROM_COMMON_H'', ''__GNUC__''] 1)
   \<and> pp_call (directives_of (example_env [''__INCLUDE_FROM_COMMON_H'', ''__GNUC__''] 1))
        ''GCC_ISR'' [[''USB_GEN_vect'']]
      = Inr [''void'', ''USB_GEN_vect'', ''('', ''void'', '')'', ''__attribute__'', ''('', ''('',
             ''__interrupt__'', '')'', '')'', '';'', ''void'', ''USB_GEN_vect'', ''('', ''void'',
             '')'']"
  using isr_declaration_arguments
      [of "example_env [''__INCLUDE_FROM_COMMON_H'', ''__ICCAVR32__''] 1" "[''USB_GEN_vect'']"]
    isr_declaration_arguments
      [of "example_env [''__INCLUDE_FROM_COMMON_H'', ''__GNUC__''] 1" "[''USB_GEN_vect'']"]
  by (simp add: cond_defs)

subsection \<open>The part query\<close>

text \<open>
  C6, as stated, fails. \<open>ARCH_AVR\<close> and \<open>ARCH_XMEGA\<close> are two different recognised
  architectures, and line 89 gives both the same convention: for the part
  \<open>ATxmega128A1U\<close> the query expands to \<open>defined(__AVR_ATxmega128A1U__)\<close> under either.
\<close>

theorem part_query_same_name_counterexample:
  "ARCH (example_env [''__INCLUDE_FROM_COMMON_H'', ''__GNUC__''] 0)
     \<noteq> ARCH (example_env [''__INCLUDE_FROM_COMMON_H'', ''__GNUC__''] 2)
   \<and> ARCH (example_env [''__INCLUDE_FROM_COMMON_H'', ''__GNUC__''] 0)
     = ARCH_AVR (example_env [''__INCLUDE_FROM_COMMON_H'', ''__GNUC__''] 0)
   \<and> ARCH (example_env [''__INCLUDE_FROM_COMMON_H'', ''__GNUC__''] 2)
     = ARCH_XMEGA (example_env [''__INCLUDE_FROM_COMMON_H'', ''__GNUC__''] 2)
   \<and> pp_call (directives_of (example_env [''__INCLUDE_FROM_COMMON_H'', ''__GNUC__''] 0))
        ''GCC_IS_PART_DEFINED'' [[''ATxmega128A1U'']]
     = Inr [''defined'', ''('', ''__AVR_ATxmega128A1U__'', '')'']
   \<and> pp_call (directives_of (example_env [''__INCLUDE_FROM_COMMON_H'', ''__GNUC__''] 2))
        ''GCC_IS_PART_DEFINED'' [[''ATxmega128A1U'']]
     = Inr [''defined'', ''('', ''__AVR_ATxmega128A1U__'', '')'']"
  by (simp add: tables cond_defs call_defs)

text \<open>
  C6, amended. Take two first inclusions through the umbrella header, one with an
  architecture of the AVR/XMEGA convention and one with UC3. Within the GCC family, and
  within the IAR family, the part query expands differently for every part name: for a
  part name of one token to \<open>defined(__AVR_part__)\<close> against \<open>defined(__AVR32_part__)\<close>
  under GCC, and to \<open>defined(__ATpart__)\<close> against \<open>defined(__AT32part__)\<close> under IAR.
\<close>

theorem part_query_names_differ_between_conventions:
  assumes "first_inclusion e1" and "included_via_umbrella e1"
    and "first_inclusion e2" and "included_via_umbrella e2"
    and "arch_avr_or_xmega e1" and "\<not> arch_avr_or_xmega e2" and "arch_uc3 e2"
  shows "(gcc_family e1 \<and> gcc_family e2 \<longrightarrow>
            pp_call (directives_of e1) ''GCC_IS_PART_DEFINED'' [x]
              \<noteq> pp_call (directives_of e2) ''GCC_IS_PART_DEFINED'' [x]
            \<and> pp_call (directives_of e1) ''GCC_IS_PART_DEFINED'' [[part]]
              = Inr [''defined'', ''('', ''__AVR_'' @ part @ ''__'', '')'']
            \<and> pp_call (directives_of e2) ''GCC_IS_PART_DEFINED'' [[part]]
              = Inr [''defined'', ''('', ''__AVR32_'' @ part @ ''__'', '')''])
    \<and> (iar_family e1 \<and> iar_family e2 \<longrightarrow>
            pp_call (directives_of e1) ''IAR_IS_PART_DEFINED'' [x]
              \<noteq> pp_call (directives_of e2) ''IAR_IS_PART_DEFINED'' [x]
            \<and> pp_call (directives_of e1) ''IAR_IS_PART_DEFINED'' [[part]]
              = Inr [''defined'', ''('', ''__AT'' @ part @ ''__'', '')'']
            \<and> pp_call (directives_of e2) ''IAR_IS_PART_DEFINED'' [[part]]
              = Inr [''defined'', ''('', ''__AT32'' @ part @ ''__'', '')''])"
proof -
  have gcc1: "pp_call (directives_of e1) ''GCC_IS_PART_DEFINED'' [y]
      = Inr (''defined'' # ''('' # glue (glue [''__AVR_''] y) [''__''] @ ['')''])"
    if "gcc_family e1" for y
    using that assms by (simp add: tables pp_call_def part_query_expansion)
  have gcc2: "pp_call (directives_of e2) ''GCC_IS_PART_DEFINED'' [y]
      = Inr (''defined'' # ''('' # glue (glue [''__AVR32_''] y) [''__''] @ ['')''])"
    if "gcc_family e2" for y
    using that assms by (simp add: tables pp_call_def part_query_expansion)
  have iar1: "pp_call (directives_of e1) ''IAR_IS_PART_DEFINED'' [y]
      = Inr (''defined'' # ''('' # glue (glue [''__AT''] y) [''__''] @ ['')''])"
    if "iar_family e1" for y
    using that assms by (simp add: tables pp_call_def part_query_expansion)
  have iar2: "pp_call (directives_of e2) ''IAR_IS_PART_DEFINED'' [y]
      = Inr (''defined'' # ''('' # glue (glue [''__AT32''] y) [''__''] @ ['')''])"
    if "iar_family e2" for y
    using that assms by (simp add: tables pp_call_def part_query_expansion)
  have g: "glue (glue [''__AVR_''] x) [''__''] @ ['')'']
      \<noteq> glue (glue [''__AVR32_''] x) [''__''] @ ['')'']"
    by (rule glue_twice_differs) (rule gcc_prefixes_differ)
  have i: "glue (glue [''__AT''] x) [''__''] @ ['')'']
      \<noteq> glue (glue [''__AT32''] x) [''__''] @ ['')'']"
    by (rule glue_twice_differs) (rule iar_prefixes_differ)
  show ?thesis
    using g i by (simp add: gcc1 gcc2 iar1 iar2) (simp add: glue_def)
qed

text \<open>
  The amended C6 at GCC and at IAR, each for XMEGA against UC3, with the part
  \<open>UC3A0512\<close>.
\<close>

theorem part_query_names_differ_between_conventions_witness:
  "first_inclusion (example_env [''__INCLUDE_FROM_COMMON_H'', ''__GNUC__''] 2)
   \<and> included_via_umbrella (example_env [''__INCLUDE_FROM_COMMON_H'', ''__GNUC__''] 2)
   \<and> first_inclusion (example_env [''__INCLUDE_FROM_COMMON_H'', ''__GNUC__''] 1)
   \<and> included_via_umbrella (example_env [''__INCLUDE_FROM_COMMON_H'', ''__GNUC__''] 1)
   \<and> arch_avr_or_xmega (example_env [''__INCLUDE_FROM_COMMON_H'', ''__GNUC__''] 2)
   \<and> \<not> arch_avr_or_xmega (example_env [''__INCLUDE_FROM_COMMON_H'', ''__GNUC__''] 1)
   \<and> arch_uc3 (example_env [''__INCLUDE_FROM_COMMON_H'', ''__GNUC__''] 1)
   \<and> gcc_family (example_env [''__INCLUDE_FROM_COMMON_H'', ''__GNUC__''] 2)
   \<and> gcc_family (example_env [''__INCLUDE_FROM_COMMON_H'', ''__GNUC__''] 1)
   \<and> pp_call (directives_of (example_env [''__INCLUDE_FROM_COMMON_H'', ''__GNUC__''] 2))
        ''GCC_IS_PART_DEFINED'' [[''UC3A0512'']]
      \<noteq> pp_call (directives_of (example_env [''__INCLUDE_FROM_COMMON_H'', ''__GNUC__''] 1))
        ''GCC_IS_PART_DEFINED'' [[''UC3A0512'']]
   \<and> pp_call (directives_of (example_env [''__INCLUDE_FROM_COMMON_H'', ''__GNUC__''] 1))
        ''GCC_IS_PART_DEFINED'' [[''UC3A0512'']]
      = Inr [''defined'', ''('', ''__AVR32_UC3A0512__'', '')'']
   \<and> iar_family (example_env [''__INCLUDE_FROM_COMMON_H'', ''__ICCAVR32__''] 2)
   \<and> iar_family (example_env [''__INCLUDE_FROM_COMMON_H'', ''__ICCAVR32__''] 1)
   \<and> pp_call (directives_of (example_env [''__INCLUDE_FROM_COMMON_H'', ''__ICCAVR32__''] 2))
        ''IAR_IS_PART_DEFINED'' [[''UC3A0512'']]
      = Inr [''defined'', ''('', ''__ATUC3A0512__'', '')'']
   \<and> pp_call (directives_of (example_env [''__INCLUDE_FROM_COMMON_H'', ''__ICCAVR32__''] 1))
        ''IAR_IS_PART_DEFINED'' [[''UC3A0512'']]
      = Inr [''defined'', ''('', ''__AT32UC3A0512__'', '')'']"
  using part_query_names_differ_between_conventions
      [of "example_env [''__INCLUDE_FROM_COMMON_H'', ''__GNUC__''] 2"
          "example_env [''__INCLUDE_FROM_COMMON_H'', ''__GNUC__''] 1"
          "[''UC3A0512'']" "''UC3A0512''"]
    part_query_names_differ_between_conventions
      [of "example_env [''__INCLUDE_FROM_COMMON_H'', ''__ICCAVR32__''] 2"
          "example_env [''__INCLUDE_FROM_COMMON_H'', ''__ICCAVR32__''] 1"
          "[''UC3A0512'']" "''UC3A0512''"]
  by (simp add: cond_defs)




subsection \<open>Register access under the fallback\<close>

text \<open>
  C7. On the first inclusion through the umbrella header under the Fallback Family the
  file raises no error of its own, and the register read and the register write, under
  the \<open>GCC_\<close> and under the \<open>IAR_\<close> name, expand to no tokens at all, whatever the
  register and the value: the read leaves no expression and the write no statement.
\<close>

theorem fallback_register_access_is_empty:
  assumes "first_inclusion env" and "included_via_umbrella env" and "fallback_family env"
  shows "\<not> isl (CompilerSpecific_h env)
    \<and> pp_call (directives_of env) ''GCC_READ_SYS_REGISTER'' [reg] = Inr []
    \<and> pp_call (directives_of env) ''GCC_WRITE_SYS_REGISTER'' [reg, val] = Inr []
    \<and> pp_call (directives_of env) ''IAR_READ_SYS_REGISTER'' [reg] = Inr []
    \<and> pp_call (directives_of env) ''IAR_WRITE_SYS_REGISTER'' [reg, val] = Inr []"
  using assms by (simp add: tables fallback_family_def call_defs header_no_error)

text \<open>C7 with no compiler name defined, for the register \<open>AVR32_COUNT\<close> and the value 0.\<close>

theorem fallback_register_access_is_empty_witness:
  "first_inclusion (example_env [''__INCLUDE_FROM_COMMON_H''] 1)
   \<and> included_via_umbrella (example_env [''__INCLUDE_FROM_COMMON_H''] 1)
   \<and> fallback_family (example_env [''__INCLUDE_FROM_COMMON_H''] 1)
   \<and> \<not> isl (CompilerSpecific_h (example_env [''__INCLUDE_FROM_COMMON_H''] 1))
   \<and> pp_call (directives_of (example_env [''__INCLUDE_FROM_COMMON_H''] 1))
        ''GCC_READ_SYS_REGISTER'' [[''AVR32_COUNT'']] = Inr []
   \<and> pp_call (directives_of (example_env [''__INCLUDE_FROM_COMMON_H''] 1))
        ''GCC_WRITE_SYS_REGISTER'' [[''AVR32_COUNT''], [''0'']] = Inr []
   \<and> pp_call (directives_of (example_env [''__INCLUDE_FROM_COMMON_H''] 1))
        ''IAR_READ_SYS_REGISTER'' [[''AVR32_COUNT'']] = Inr []
   \<and> pp_call (directives_of (example_env [''__INCLUDE_FROM_COMMON_H''] 1))
        ''IAR_WRITE_SYS_REGISTER'' [[''AVR32_COUNT''], [''0'']] = Inr []"
  using fallback_register_access_is_empty
      [of "example_env [''__INCLUDE_FROM_COMMON_H''] 1" "[''AVR32_COUNT'']" "[''0'']"]
  by (simp add: cond_defs)

subsection \<open>What the other macros expand to\<close>

text \<open>
  The ordering that a barrier gives, the atomic update of the status register and the
  answer of the constant detection are the compiler's and the hardware's. What the file
  fixes is the expansion. The barrier takes no argument, is the \<open>asm\<close> statement with the
  \<open>memory\<close> clobber under GCC and an empty \<open>asm\<close> under IAR, and is empty where the GCC
  group is not active; \<open>IAR_MEMORY_BARRIER\<close> has no definition where the IAR group is not
  active. The flag macros and the constant query hand their argument unchanged to the
  compiler's intrinsic; where their group is not active the flag macros are empty and
  the constant query is \<open>0\<close>.
\<close>

lemma memory_barrier_expansions:
  assumes "first_inclusion env" and "included_via_umbrella env"
  shows \<open>pp_call (directives_of env) ''GCC_MEMORY_BARRIER'' []
      = Inr (if gcc_family env
             then [''__asm__'', ''__volatile__'', ''('', ''""'', '':'', '':'', '':'',
                   ''"memory"'', '')'', '';'']
             else [])\<close>
    and \<open>pp_call (directives_of env) ''GCC_MEMORY_BARRIER'' (a # as)
      = Inl (Wrong_argument_count ''GCC_MEMORY_BARRIER'' 0 (Suc (length as)))\<close>
    and \<open>pp_call (directives_of env) ''IAR_MEMORY_BARRIER'' []
      = (if iar_family env then Inr [''__asm'', ''('', ''""'', '')'']
         else Inl (Undefined_macro ''IAR_MEMORY_BARRIER''))\<close>
  using assms by (simp_all add: tables call_defs)

lemma status_flag_expansions:
  assumes "first_inclusion env" and "included_via_umbrella env"
  shows "pp_call (directives_of env) ''GCC_CLEAR_STATUS_FLAG'' [m]
      = Inr (if gcc_family env then [''__builtin_csrf'', ''(''] @ m @ ['')''] else [])"
    and "pp_call (directives_of env) ''GCC_SET_STATUS_FLAG'' [m]
      = Inr (if gcc_family env then [''__builtin_ssrf'', ''(''] @ m @ ['')''] else [])"
    and "pp_call (directives_of env) ''IAR_CLEAR_STATUS_FLAG'' [m]
      = Inr (if iar_family env then [''__clear_status_flag'', ''(''] @ m @ ['')''] else [])"
    and "pp_call (directives_of env) ''IAR_SET_STATUS_FLAG'' [m]
      = Inr (if iar_family env then [''__set_status_flag'', ''(''] @ m @ ['')''] else [])"
  using assms by (simp_all add: tables call_defs)

lemma constant_query_expansions:
  assumes "first_inclusion env" and "included_via_umbrella env"
  shows "pp_call (directives_of env) ''GCC_IS_COMPILE_CONST'' [x]
      = Inr (if gcc_family env then [''__builtin_constant_p'', ''(''] @ x @ ['')''] else [''0''])"
    and "pp_call (directives_of env) ''IAR_IS_COMPILE_CONST'' [x]
      = Inl (Undefined_macro ''IAR_IS_COMPILE_CONST'')"
  using assms by (simp_all add: tables call_defs)

text \<open>
  The pragma of an IAR handler: for the invocation \<open>__IAR_ISR_PRAGMA(handler = G, 1)\<close>
  the operator \<open>#\<close> gives the string \<open>"handler = G, 1"\<close>; in a string literal of the
  argument each double quote gets a backslash.
\<close>

lemma isr_pragma_stringified:
  assumes "first_inclusion env" and "included_via_umbrella env"
    and "iar_family env" and "\<not> pp_defined env ''__DOXYGEN__''"
  shows \<open>pp_call (directives_of env) ''__IAR_ISR_PRAGMA''
        [[''handler'', '' '', ''='', '' '', ''G''], ['' '', ''1'']]
      = Inr [''_Pragma'', ''('', ''"handler = G, 1"'', '')'']\<close>
    and \<open>pp_call (directives_of env) ''__IAR_ISR_PRAGMA'' [[''handler=G'', '','', ''1'']]
      = Inr [''_Pragma'', ''('', ''"handler=G,1"'', '')'']\<close>
    and \<open>stringify ['' '', ''"a"'', '' '', '' '', ''b'', '' ''] = [CHR 0x22, CHR 0x5C, CHR 0x22, CHR ''a'', CHR 0x5C, CHR 0x22, CHR '' '', CHR ''b'',
         CHR 0x22]\<close>
  using assms
  by (simp_all add: lookup_ISR_PRAGMA iar_ISR_PRAGMA call_defs stringify_def is_space_def
      token_spelling_def)

end
